theory Spec2Isabelle
  imports Complex_Main
begin

section \<open>Exceptions\<close>

text \<open>
  The classes of the exceptions that travel through \<^verbatim>\<open>parser.py\<close> and \<^verbatim>\<open>llm.py\<close>.
  \<^verbatim>\<open>LLMError\<close>, \<^verbatim>\<open>VisionParserError\<close> and \<^verbatim>\<open>UnsupportedFileError\<close> are declared
  in the source as subclasses of \<^verbatim>\<open>BaseException\<close>; the builtin and library errors
  (\<^verbatim>\<open>FileNotFoundError\<close>, \<^verbatim>\<open>UnboundLocalError\<close>, \<^verbatim>\<open>ValueError\<close>, pydantic's
  \<^verbatim>\<open>ValidationError\<close>, any other library error) are subclasses of \<^verbatim>\<open>Exception\<close>.
  \<^verbatim>\<open>OtherBaseException\<close> stands for the remaining direct subclasses of
  \<^verbatim>\<open>BaseException\<close> (\<^verbatim>\<open>KeyboardInterrupt\<close>, \<^verbatim>\<open>CancelledError\<close>).
  An exception is its class and its message, \<^verbatim>\<open>str(e)\<close> reads the message.
\<close>

datatype exn_class =
    LLMError
  | VisionParserError
  | UnsupportedFileError
  | FileNotFoundError
  | UnboundLocalError
  | ValueError
  | ValidationError
  | OtherException
  | OtherBaseException

datatype exn = Exn exn_class string

fun is_Exception_class :: "exn_class \<Rightarrow> bool" where
  "is_Exception_class LLMError = False"
| "is_Exception_class VisionParserError = False"
| "is_Exception_class UnsupportedFileError = False"
| "is_Exception_class FileNotFoundError = True"
| "is_Exception_class UnboundLocalError = True"
| "is_Exception_class ValueError = True"
| "is_Exception_class ValidationError = True"
| "is_Exception_class OtherException = True"
| "is_Exception_class OtherBaseException = False"

fun is_Exception :: "exn \<Rightarrow> bool" where
  "is_Exception (Exn c m) = is_Exception_class c"

fun exn_class_of :: "exn \<Rightarrow> exn_class" where
  "exn_class_of (Exn c m) = c"

fun str_exn :: "exn \<Rightarrow> string" where
  "str_exn (Exn c m) = m"

section \<open>Strings\<close>

definition NL :: char where
  "NL = CHR 0x0A"

definition fence :: string where
  "fence = ''```''"

fun strip_prefix :: "string \<Rightarrow> string \<Rightarrow> string option" where
  "strip_prefix [] s = Some s"
| "strip_prefix (p # ps) [] = None"
| "strip_prefix (p # ps) (c # cs) = (if p = c then strip_prefix ps cs else None)"

text \<open>
  The pattern of \<^verbatim>\<open>_gemini\<close> is \<^verbatim>\<open>```(?:markdown)?\n(.*?)\n```\<close> under \<^verbatim>\<open>re.DOTALL\<close>.
  \<open>find_close\<close> is the lazy group followed by the closing newline and fence: the
  shortest prefix after which the closing text starts. \<open>match_fence\<close> is one match
  attempt at the head of the text: the optional group is greedy, so the opening with
  \<^verbatim>\<open>markdown\<close> is tried first and the bare opening on backtracking.
  \<open>re_sub\<close> is \<^verbatim>\<open>re.sub\<close> with the replacement \<^verbatim>\<open>\1\<close>: matches are taken left to
  right without overlap, unmatched characters are copied.
\<close>

fun find_close :: "string \<Rightarrow> (string \<times> string) option" where
  "find_close [] = None"
| "find_close (c # cs) =
     (case strip_prefix (NL # fence) (c # cs) of
        Some rest \<Rightarrow> Some ([], rest)
      | None \<Rightarrow>
          (case find_close cs of
             Some (inner, rest) \<Rightarrow> Some (c # inner, rest)
           | None \<Rightarrow> None))"

definition match_fence :: "string \<Rightarrow> (string \<times> string) option" where
  "match_fence s =
     (case (case strip_prefix (fence @ ''markdown'' @ [NL]) s of
              Some body \<Rightarrow> find_close body
            | None \<Rightarrow> None) of
        Some r \<Rightarrow> Some r
      | None \<Rightarrow>
          (case strip_prefix (fence @ [NL]) s of
             Some body \<Rightarrow> find_close body
           | None \<Rightarrow> None))"

lemma strip_prefix_length:
  "strip_prefix p s = Some r \<Longrightarrow> length r + length p = length s"
  by (induction p s rule: strip_prefix.induct) (auto split: if_splits)

lemma find_close_length:
  "find_close s = Some (inner, r) \<Longrightarrow> length r < length s"
proof (induction s arbitrary: inner r)
  case Nil
  then show ?case by simp
next
  case (Cons c cs)
  show ?case
  proof (cases "strip_prefix (NL # fence) (c # cs)")
    case (Some rest)
    with Cons.prems have "r = rest" by simp
    with strip_prefix_length [OF Some] show ?thesis by simp
  next
    case None
    with Cons.prems obtain i where "find_close cs = Some (i, r)"
      by (auto split: option.splits)
    from Cons.IH [OF this] show ?thesis by simp
  qed
qed

lemma match_fence_length:
  assumes "match_fence s = Some (inner, r)"
  shows "length r < length s"
proof -
  from assms obtain p body where p: "strip_prefix p s = Some body"
    and b: "find_close body = Some (inner, r)"
    unfolding match_fence_def by (auto split: option.splits)
  from strip_prefix_length [OF p] find_close_length [OF b] show ?thesis by simp
qed

function re_sub :: "string \<Rightarrow> string" where
  "re_sub [] = []"
| "re_sub (c # cs) =
     (case match_fence (c # cs) of
        Some (inner, rest) \<Rightarrow> inner @ re_sub rest
      | None \<Rightarrow> c # re_sub cs)"
  by pat_completeness auto
termination
proof (relation "measure length")
  show "wf (measure length)" by simp
next
  fix c cs x2 x y
  assume "match_fence (c # cs) = Some x2" and "(x, y) = x2"
  then have "match_fence (c # cs) = Some (x, y)" by simp
  from match_fence_length [OF this] show "(y, c # cs) \<in> measure length" by simp
next
  fix c cs
  assume "match_fence (c # cs) = None"
  show "(cs, c # cs) \<in> measure length" by simp
qed

text \<open>
  \<^verbatim>\<open>str.lower\<close> on the ASCII letters, \<^verbatim>\<open>str(n)\<close> for a natural number, and
  \<^verbatim>\<open>Path.suffix\<close> of pathlib: with \<^verbatim>\<open>name\<close> the final component of the path and
  \<^verbatim>\<open>i = name.rfind('.')\<close>, the suffix is \<^verbatim>\<open>name[i:]\<close> when
  \<^verbatim>\<open>0 < i < len(name) - 1\<close> and the empty string otherwise.
\<close>

definition lower_char :: "char \<Rightarrow> char" where
  "lower_char ch =
     (case map_of (zip ''ABCDEFGHIJKLMNOPQRSTUVWXYZ'' ''abcdefghijklmnopqrstuvwxyz'') ch of
        Some l \<Rightarrow> l
      | None \<Rightarrow> ch)"

definition lower :: "string \<Rightarrow> string" where
  "lower s = map lower_char s"

fun str_nat :: "nat \<Rightarrow> string" where
  "str_nat n =
     (if n < 10 then [''0123456789'' ! n]
      else str_nat (n div 10) @ [''0123456789'' ! (n mod 10)])"

definition path_name :: "string \<Rightarrow> string" where
  "path_name p = rev (takeWhile (\<lambda>ch. ch \<noteq> CHR ''/'') (rev p))"

definition path_suffix :: "string \<Rightarrow> string" where
  "path_suffix p =
     (let name = path_name p;
          after_dot = takeWhile (\<lambda>ch. ch \<noteq> CHR ''.'') (rev name);
          i = length name - length after_dot - 1
      in if CHR ''.'' \<in> set name \<and> 0 < i \<and> i < length name - 1
         then drop i name else [])"

section \<open>Data model\<close>

text \<open>
  \<^verbatim>\<open>ImageDescription\<close> is the pydantic schema of \<^verbatim>\<open>llm.py\<close>; its four
  \<^verbatim>\<open>Literal["Yes", "No"]\<close> fields are the two-valued type \<open>yn\<close>. \<^verbatim>\<open>ImageData\<close>
  is declared in \<^verbatim>\<open>utils.py\<close>; \<^verbatim>\<open>generate_markdown\<close> reads its fields
  \<^verbatim>\<open>image_url\<close> and \<^verbatim>\<open>base64_encoded\<close>. Python floats are modelled by reals.
\<close>

datatype yn = Yes | No

record ImageDescription =
  text_detected :: yn
  tables_detected :: yn
  images_detected :: yn
  latex_equations_detected :: yn
  extracted_text :: string
  confidence_score_text :: real

record ImageData =
  image_url :: string
  base64_encoded :: string

datatype image_mode = Url | Base64

record PDFPageConfig =
  dpi :: int
  color_space :: string
  include_annotations :: bool
  preserve_transparency :: bool

record page =
  rotation :: int
  page_data :: string

type_synonym pixmap = string

text \<open>
  \<^verbatim>\<open>fitz.Matrix\<close> has the six coefficients \<^verbatim>\<open>a b c d e f\<close>; \<^verbatim>\<open>fitz.Matrix(sx, sy)\<close>
  is the scaling matrix. \<open>prerotate\<close> follows PyMuPDF's \<^verbatim>\<open>Matrix.prerotate\<close>: the
  angle is reduced into \<^verbatim>\<open>[0, 360)\<close>, the quarter turns permute and negate the
  coefficients, any other angle multiplies by the rotation from the left.
\<close>

record Matrix =
  mat_a :: real
  mat_b :: real
  mat_c :: real
  mat_d :: real
  mat_e :: real
  mat_f :: real

definition Matrix_scale :: "real \<Rightarrow> real \<Rightarrow> Matrix" where
  "Matrix_scale sx sy =
     \<lparr>mat_a = sx, mat_b = 0, mat_c = 0, mat_d = sy, mat_e = 0, mat_f = 0\<rparr>"

definition prerotate :: "Matrix \<Rightarrow> int \<Rightarrow> Matrix" where
  "prerotate m theta =
     (let t = theta mod 360 in
      if t = 0 then m
      else if t = 90 then
        m\<lparr>mat_a := mat_c m, mat_b := mat_d m, mat_c := - mat_a m, mat_d := - mat_b m\<rparr>
      else if t = 180 then
        m\<lparr>mat_a := - mat_a m, mat_b := - mat_b m, mat_c := - mat_c m, mat_d := - mat_d m\<rparr>
      else if t = 270 then
        m\<lparr>mat_a := - mat_c m, mat_b := - mat_d m, mat_c := mat_a m, mat_d := mat_b m\<rparr>
      else
        (let rad = real_of_int t * pi / 180; sn = sin rad; cs = cos rad in
         m\<lparr>mat_a := cs * mat_a m + sn * mat_c m,
           mat_b := cs * mat_b m + sn * mat_d m,
           mat_c := - sn * mat_a m + cs * mat_c m,
           mat_d := - sn * mat_b m + cs * mat_d m\<rparr>))"

text \<open>
  The product of two matrices as \<^verbatim>\<open>fitz.Matrix\<close> multiplies them, and the rotation
  by an angle in degrees; they say what a rotation applied first means.
\<close>

definition Matrix_mul :: "Matrix \<Rightarrow> Matrix \<Rightarrow> Matrix" where
  "Matrix_mul m1 m2 =
     \<lparr>mat_a = mat_a m1 * mat_a m2 + mat_b m1 * mat_c m2,
      mat_b = mat_a m1 * mat_b m2 + mat_b m1 * mat_d m2,
      mat_c = mat_c m1 * mat_a m2 + mat_d m1 * mat_c m2,
      mat_d = mat_c m1 * mat_b m2 + mat_d m1 * mat_d m2,
      mat_e = mat_e m1 * mat_a m2 + mat_f m1 * mat_c m2 + mat_e m2,
      mat_f = mat_e m1 * mat_b m2 + mat_f m1 * mat_d m2 + mat_f m2\<rparr>"

definition Matrix_rotation :: "int \<Rightarrow> Matrix" where
  "Matrix_rotation theta =
     (let rad = real_of_int (theta mod 360) * pi / 180 in
      \<lparr>mat_a = cos rad, mat_b = sin rad, mat_c = - sin rad, mat_d = cos rad,
       mat_e = 0, mat_f = 0\<rparr>)"

text \<open>
  One request to the model: the encoded page image, the prompt and the generation
  settings that \<^verbatim>\<open>_gemini\<close> derives from \<^verbatim>\<open>structured\<close>. The trace records, in the
  order they happen, the calls made to the model, the image extractions, the waits
  between retry attempts and the pause that closes a batch.
\<close>

record request =
  req_image :: string
  req_prompt :: string
  req_structured :: bool
  req_temperature :: real
  req_top_p :: real

datatype event =
    ModelCall request
  | ExtractImages nat
  | Sleep nat
  | BatchPause

text \<open>
  The mutable part of an \<^verbatim>\<open>LLM\<close> object is the flag \<^verbatim>\<open>detailed_extraction\<close>;
  the trace is added to observe the calls.
\<close>

record llm_state =
  detailed_extraction :: bool
  trace :: "event list"

text \<open>
  Everything else is fixed for the lifetime of a \<^verbatim>\<open>VisionParser\<close>: the settings
  given to the constructor, \<^verbatim>\<open>num_workers\<close> as returned by \<^verbatim>\<open>get_device_config\<close>,
  and the collaborators outside the two modules: the Gemini client (its answer may
  depend on the calls made before), pydantic's \<^verbatim>\<open>model_validate_json\<close>, the two
  jinja templates, \<^verbatim>\<open>ImageData.extract_images\<close>, the PyMuPDF operations and the
  file system.
\<close>

record env =
  page_config :: PDFPageConfig
  image_mode :: "image_mode option"
  custom_prompt :: "string option"
  enable_concurrency :: bool
  num_workers :: nat
  temperature :: real
  top_p :: real
  client :: "event list \<Rightarrow> request \<Rightarrow> exn + string"
  model_validate_json :: "string \<Rightarrow> ImageDescription option"
  image_analysis_prompt :: string
  md_prompt_template :: "string \<Rightarrow> yn \<Rightarrow> yn \<Rightarrow> real \<Rightarrow> string option \<Rightarrow> string"
  extract_images :: "pixmap \<Rightarrow> image_mode \<Rightarrow> nat \<Rightarrow> exn + ImageData list"
  get_pixmap :: "page \<Rightarrow> Matrix \<Rightarrow> bool \<Rightarrow> string \<Rightarrow> bool \<Rightarrow> exn + pixmap"
  tobytes_png :: "pixmap \<Rightarrow> exn + string"
  b64encode :: "string \<Rightarrow> string"
  path_exists :: "string \<Rightarrow> bool"
  path_is_file :: "string \<Rightarrow> bool"
  fitz_open :: "string \<Rightarrow> exn + page list"
  insert_image :: "string \<Rightarrow> exn + page"

declare str_nat.simps [simp del]

section \<open>Rasterization\<close>

text \<open>
  \<^verbatim>\<open>VisionParser._calculate_matrix\<close> (the leading underscore of a Python name is
  dropped throughout).
\<close>

definition calculate_matrix :: "PDFPageConfig \<Rightarrow> page \<Rightarrow> Matrix" where
  "calculate_matrix cfg pg =
     (let zoom = real_of_int (dpi cfg) / 72;
          matrix = Matrix_scale (zoom * 2) (zoom * 2)
      in if rotation pg \<noteq> 0 then prerotate matrix (rotation pg) else matrix)"

section \<open>The model call and its retry policy\<close>

text \<open>
  The body of \<^verbatim>\<open>LLM._gemini\<close>, one attempt. Both branches on \<^verbatim>\<open>enable_concurrency\<close>
  send the same request, so they are one call of the client here. An error of class
  \<^verbatim>\<open>Exception\<close> is replaced by an \<^verbatim>\<open>LLMError\<close> carrying its message; the handler
  \<^verbatim>\<open>except Exception\<close> lets any other error through.
\<close>

definition gemini_request :: "env \<Rightarrow> string \<Rightarrow> string \<Rightarrow> bool \<Rightarrow> request" where
  "gemini_request env base64 prompt structured =
     \<lparr>req_image = base64, req_prompt = prompt, req_structured = structured,
      req_temperature = (if structured then 0 else temperature env),
      req_top_p = (if structured then 4 / 10 else top_p env)\<rparr>"

definition gemini_attempt ::
  "env \<Rightarrow> string \<Rightarrow> string \<Rightarrow> bool \<Rightarrow> llm_state \<Rightarrow> (exn + string) \<times> llm_state" where
  "gemini_attempt env base64 prompt structured s =
     (let req = gemini_request env base64 prompt structured;
          s' = s\<lparr>trace := trace s @ [ModelCall req]\<rparr>
      in case client env (trace s) req of
           Inr response_text \<Rightarrow> (Inr (re_sub response_text), s')
         | Inl e \<Rightarrow>
             (if is_Exception e
              then (Inl (Exn LLMError (''Gemini Model processing failed: '' @ str_exn e)), s')
              else (Inl e, s')))"

text \<open>
  The decorator is \<^verbatim>\<open>@retry(reraise=True, stop=stop_after_attempt(3),
  wait=wait_exponential(multiplier=1, min=4, max=10))\<close>. It names no \<^verbatim>\<open>retry\<close>
  condition, so tenacity's default applies: \<^verbatim>\<open>retry_if_exception_type()\<close>, which
  retries when the attempt raised an instance of \<^verbatim>\<open>Exception\<close>. After a failed
  attempt tenacity first asks the retry condition (no: the error is raised), then the
  stop condition (yes: with \<^verbatim>\<open>reraise\<close> the last error is raised), and otherwise
  sleeps for the computed wait and attempts again.
\<close>

definition retry_if_exception_type :: "exn \<Rightarrow> bool" where
  "retry_if_exception_type e = is_Exception e"

definition stop_after_attempt :: "nat \<Rightarrow> nat \<Rightarrow> bool" where
  "stop_after_attempt max_attempt_number attempt_number =
     (attempt_number \<ge> max_attempt_number)"

definition wait_exponential :: "nat \<Rightarrow> nat \<Rightarrow> nat \<Rightarrow> nat \<Rightarrow> nat" where
  "wait_exponential multiplier mn mx attempt_number =
     max (max 0 mn) (min (multiplier * 2 ^ (attempt_number - 1)) mx)"

definition retry_again :: "exn \<Rightarrow> nat \<Rightarrow> bool" where
  "retry_again e attempt_number =
     (retry_if_exception_type e \<and> \<not> stop_after_attempt 3 attempt_number)"

definition retry_sleep :: "nat \<Rightarrow> llm_state \<Rightarrow> llm_state" where
  "retry_sleep attempt_number s =
     s\<lparr>trace := trace s @ [Sleep (wait_exponential 1 4 10 attempt_number)]\<rparr>"

section \<open>One page\<close>

text \<open>
  \<^verbatim>\<open>_convert_page\<close> with \<^verbatim>\<open>generate_markdown\<close> inside it is a coroutine: it runs
  until it waits for the model and is resumed with the answer. A task is the point
  where the coroutine stands:
  \<^item> \<open>Start\<close>: not yet begun, with the page and its number;
  \<^item> \<open>Analyze\<close>: inside the \<^verbatim>\<open>try\<close> of \<^verbatim>\<open>generate_markdown\<close>, before attempt
    number \<open>k\<close> of the structured call, holding \<^verbatim>\<open>pix\<close>, \<^verbatim>\<open>base64_encoded\<close> and
    \<^verbatim>\<open>page_number\<close>;
  \<^item> \<open>Generate\<close>: before attempt number \<open>k\<close> of the freeform call, holding
    \<^verbatim>\<open>extracted_images\<close>, \<^verbatim>\<open>prompt\<close>, \<^verbatim>\<open>base64_encoded\<close> and \<^verbatim>\<open>page_number\<close>;
  \<^item> \<open>Finished\<close>: returned a markdown string or raised.
\<close>

datatype task =
    Start page nat
  | Analyze pixmap string nat nat
  | Generate "ImageData list" string string nat nat
  | Finished "exn + string"

text \<open>
  The handler of \<^verbatim>\<open>_convert_page\<close>, \<^verbatim>\<open>except Exception as e: raise
  VisionParserError(...)\<close>, seen from outside: an error of class \<^verbatim>\<open>Exception\<close>
  leaves as a \<^verbatim>\<open>VisionParserError\<close> naming the page, any other error leaves as it is.
  When \<^verbatim>\<open>get_pixmap\<close> (or anything before it) raises, \<^verbatim>\<open>pix\<close> was never assigned,
  and the \<^verbatim>\<open>finally\<close> block, which reads \<^verbatim>\<open>pix\<close>, raises \<^verbatim>\<open>UnboundLocalError\<close>
  in place of the error in flight.
\<close>

definition convert_page_except :: "nat \<Rightarrow> exn \<Rightarrow> exn" where
  "convert_page_except page_number e =
     (if is_Exception e
      then Exn VisionParserError
             (''Failed to convert page '' @ str_nat (page_number + 1)
              @ '' to base64-encoded PNG: '' @ str_exn e)
      else e)"

definition unbound_pix :: exn where
  "unbound_pix =
     Exn UnboundLocalError
       ''cannot access local variable 'pix' where it is not associated with a value''"

definition fallback_prompt :: "env \<Rightarrow> string" where
  "fallback_prompt env = md_prompt_template env [] Yes No 0 (custom_prompt env)"

definition detailed_prompt :: "env \<Rightarrow> ImageDescription \<Rightarrow> string" where
  "detailed_prompt env json_response =
     md_prompt_template env (extracted_text json_response) (tables_detected json_response)
       (latex_equations_detected json_response) (confidence_score_text json_response)
       (custom_prompt env)"

text \<open>
  Lines 128 to 135 of \<^verbatim>\<open>generate_markdown\<close>: with the flag set the structured call
  comes first; without it the prompt is the one of lines 164 to 171 and the freeform
  call is next.
\<close>

definition generate_markdown_begin ::
  "env \<Rightarrow> string \<Rightarrow> pixmap \<Rightarrow> nat \<Rightarrow> llm_state \<Rightarrow> task \<times> llm_state" where
  "generate_markdown_begin env base64 pix page_number s =
     (if detailed_extraction s then (Analyze pix base64 page_number 1, s)
      else (Generate [] (fallback_prompt env) base64 page_number 1, s))"

definition convert_page_begin :: "env \<Rightarrow> page \<Rightarrow> nat \<Rightarrow> llm_state \<Rightarrow> task \<times> llm_state" where
  "convert_page_begin env pg page_number s =
     (let matrix = calculate_matrix (page_config env) pg in
      case get_pixmap env pg matrix (preserve_transparency (page_config env))
             (color_space (page_config env)) (include_annotations (page_config env)) of
        Inl e \<Rightarrow> (Finished (Inl unbound_pix), s)
      | Inr pix \<Rightarrow>
          (case tobytes_png env pix of
             Inl e \<Rightarrow> (Finished (Inl (convert_page_except page_number e)), s)
           | Inr png \<Rightarrow> generate_markdown_begin env (b64encode env png) pix page_number s))"

text \<open>
  The handler \<^verbatim>\<open>except Exception\<close> of \<^verbatim>\<open>generate_markdown\<close> (lines 158 to 162)
  followed by lines 164 to 173: the flag is cleared, \<^verbatim>\<open>extracted_images\<close> is still
  the empty list of line 128, the prompt is built from the fixed fields.
\<close>

definition analysis_fallback :: "env \<Rightarrow> string \<Rightarrow> nat \<Rightarrow> llm_state \<Rightarrow> task \<times> llm_state" where
  "analysis_fallback env base64 page_number s =
     (Generate [] (fallback_prompt env) base64 page_number 1,
      s\<lparr>detailed_extraction := False\<rparr>)"

text \<open>
  How an error raised inside the \<^verbatim>\<open>try\<close> of \<^verbatim>\<open>generate_markdown\<close> leaves it: caught
  when it is an \<^verbatim>\<open>Exception\<close>, otherwise out through \<^verbatim>\<open>_convert_page\<close>.
\<close>

definition analysis_raise :: "env \<Rightarrow> string \<Rightarrow> nat \<Rightarrow> exn \<Rightarrow> llm_state \<Rightarrow> task \<times> llm_state" where
  "analysis_raise env base64 page_number e s =
     (if is_Exception e then analysis_fallback env base64 page_number s
      else (Finished (Inl (convert_page_except page_number e)), s))"

text \<open>
  Lines 150 to 173 once the images are known: the prompt from the analysis, replaced
  by the fixed one when the flag, read again at line 164, is clear.
\<close>

definition generate_markdown_prompt ::
  "env \<Rightarrow> ImageDescription \<Rightarrow> ImageData list \<Rightarrow> string \<Rightarrow> nat \<Rightarrow> llm_state \<Rightarrow> task \<times> llm_state" where
  "generate_markdown_prompt env json_response extracted_images base64 page_number s =
     (let prompt = detailed_prompt env json_response;
          prompt' = (if \<not> detailed_extraction s then fallback_prompt env else prompt)
      in (Generate extracted_images prompt' base64 page_number 1, s))"

text \<open>Lines 137 to 156, resumed with the text that the structured call returned.\<close>

definition generate_markdown_analyzed ::
  "env \<Rightarrow> pixmap \<Rightarrow> string \<Rightarrow> nat \<Rightarrow> string \<Rightarrow> llm_state \<Rightarrow> task \<times> llm_state" where
  "generate_markdown_analyzed env pix base64 page_number response s =
     (case model_validate_json env response of
        None \<Rightarrow> analysis_raise env base64 page_number (Exn ValidationError ''validation error'') s
      | Some json_response \<Rightarrow>
          if text_detected json_response = No then (Finished (Inr []), s)
          else
            (case (if images_detected json_response = Yes then image_mode env else None) of
               None \<Rightarrow> generate_markdown_prompt env json_response [] base64 page_number s
             | Some mode \<Rightarrow>
                 (let s' = s\<lparr>trace := trace s @ [ExtractImages page_number]\<rparr> in
                  case extract_images env pix mode page_number of
                    Inl e \<Rightarrow> analysis_raise env base64 page_number e s'
                  | Inr extracted_images \<Rightarrow>
                      generate_markdown_prompt env json_response extracted_images
                        base64 page_number s')))"

text \<open>Lines 177 to 189: one reference is appended for each extracted image.\<close>

definition image_ref :: "image_mode \<Rightarrow> ImageData \<Rightarrow> string" where
  "image_ref mode image_data =
     (case mode of
        Url \<Rightarrow> [NL, NL] @ ''!['' @ image_url image_data @ '']('' @ image_url image_data @ '')''
      | Base64 \<Rightarrow>
          [NL, NL] @ ''!['' @ image_url image_data @ '']('' @ base64_encoded image_data @ '')'')"

definition assemble :: "env \<Rightarrow> ImageData list \<Rightarrow> string \<Rightarrow> string" where
  "assemble env extracted_images markdown_content =
     (if extracted_images \<noteq> [] then
        (case image_mode env of
           Some mode \<Rightarrow>
             foldl (\<lambda>content image_data. content @ image_ref mode image_data)
               markdown_content extracted_images
         | None \<Rightarrow> markdown_content)
      else markdown_content)"

text \<open>
  One step of a task: the code between two waits. In \<open>Analyze\<close> and \<open>Generate\<close> a
  step is one attempt of the call together with what follows its outcome.
\<close>

fun task_step :: "env \<Rightarrow> task \<Rightarrow> llm_state \<Rightarrow> task \<times> llm_state" where
  "task_step env (Start pg page_number) s = convert_page_begin env pg page_number s"
| "task_step env (Analyze pix base64 page_number k) s =
     (case gemini_attempt env base64 (image_analysis_prompt env) True s of
        (Inr response, s') \<Rightarrow> generate_markdown_analyzed env pix base64 page_number response s'
      | (Inl e, s') \<Rightarrow>
          if retry_again e k then (Analyze pix base64 page_number (k + 1), retry_sleep k s')
          else analysis_raise env base64 page_number e s')"
| "task_step env (Generate extracted_images prompt base64 page_number k) s =
     (case gemini_attempt env base64 prompt False s of
        (Inr markdown_content, s') \<Rightarrow>
          (Finished (Inr (assemble env extracted_images markdown_content)), s')
      | (Inl e, s') \<Rightarrow>
          if retry_again e k
          then (Generate extracted_images prompt base64 page_number (k + 1), retry_sleep k s')
          else (Finished (Inl (convert_page_except page_number e)), s'))"
| "task_step env (Finished r) s = (Finished r, s)"

text \<open>
  \<^verbatim>\<open>asyncio.run\<close> on a single \<^verbatim>\<open>_convert_page\<close> coroutine runs it to its end; no
  other task takes a step in between. The number of steps is bounded: each call is
  attempted at most three times.
\<close>

fun task_fuel :: "task \<Rightarrow> nat" where
  "task_fuel (Start pg page_number) = 9"
| "task_fuel (Analyze pix base64 page_number k) = 5 + (3 - k)"
| "task_fuel (Generate extracted_images prompt base64 page_number k) = 1 + (3 - k)"
| "task_fuel (Finished r) = 0"

lemma generate_markdown_analyzed_fuel:
  "task_fuel (fst (generate_markdown_analyzed env pix base64 page_number response s)) < 5"
  by (simp add: generate_markdown_analyzed_def analysis_raise_def analysis_fallback_def
      generate_markdown_prompt_def Let_def split: option.splits sum.splits)

lemma task_step_fuel:
  assumes "\<And>r. t \<noteq> Finished r"
  shows "task_fuel (fst (task_step env t s)) < task_fuel t"
proof (cases t)
  case (Start pg page_number)
  then show ?thesis
    by (simp add: convert_page_begin_def generate_markdown_begin_def Let_def
        split: sum.splits)
next
  case (Analyze pix base64 page_number k)
  have "task_fuel (fst (generate_markdown_analyzed env pix base64 page_number r s')) < 5 + (3 - k)"
    for r s'
    using generate_markdown_analyzed_fuel [of env pix base64 page_number r s'] by simp
  with Analyze show ?thesis
    by (auto simp add: retry_again_def stop_after_attempt_def analysis_raise_def
        analysis_fallback_def split: prod.splits sum.splits)
next
  case (Generate extracted_images prompt base64 page_number k)
  then show ?thesis
    by (auto simp add: retry_again_def stop_after_attempt_def split: prod.splits sum.splits)
next
  case (Finished r)
  with assms [of r] show ?thesis by simp
qed

function (sequential) run_task :: "env \<Rightarrow> task \<Rightarrow> llm_state \<Rightarrow> (exn + string) \<times> llm_state" where
  "run_task env (Finished r) s = (r, s)"
| "run_task env t s = (case task_step env t s of (t', s') \<Rightarrow> run_task env t' s')"
  by pat_completeness auto
termination
  by (relation "measure (\<lambda>(env, t, s). task_fuel t)")
    (auto simp del: task_step.simps task_fuel.simps simp add: case_prod_beta
      intro: task_step_fuel)

section \<open>Batches\<close>

text \<open>
  \<^verbatim>\<open>asyncio.gather\<close> over the tasks of a batch. The tasks share the \<^verbatim>\<open>LLM\<close>
  object and take their steps in an order that the program does not fix: the
  schedule is a list of positions, each pick lets the task at that position take one
  step (a pick of a finished task or outside the batch does nothing), and the tasks
  still unfinished when the schedule is used up are run to their end in the order of
  the batch. The first error raised by a task is the outcome of the gather; the other
  tasks take no further step here. The results are read in the order of the tasks.
\<close>

fun run_all :: "env \<Rightarrow> task list \<Rightarrow> llm_state \<Rightarrow> (exn + string list) \<times> llm_state" where
  "run_all env [] s = (Inr [], s)"
| "run_all env (t # ts) s =
     (case run_task env t s of
        (Inl e, s') \<Rightarrow> (Inl e, s')
      | (Inr markdown, s') \<Rightarrow>
          (case run_all env ts s' of
             (Inl e, s'') \<Rightarrow> (Inl e, s'')
           | (Inr markdowns, s'') \<Rightarrow> (Inr (markdown # markdowns), s'')))"

fun gather :: "env \<Rightarrow> nat list \<Rightarrow> task list \<Rightarrow> llm_state \<Rightarrow> (exn + string list) \<times> llm_state" where
  "gather env [] ts s = run_all env ts s"
| "gather env (k # ks) ts s =
     (if k < length ts then
        (case ts ! k of
           Finished r \<Rightarrow> gather env ks ts s
         | t \<Rightarrow>
             (case task_step env t s of
                (Finished (Inl e), s') \<Rightarrow> (Inl e, s')
              | (t', s') \<Rightarrow> gather env ks (ts[k := t']) s'))
      else gather env ks ts s)"

text \<open>
  \<^verbatim>\<open>_convert_pages_batch\<close>: task \<open>i\<close> of the batch converts \<^verbatim>\<open>pages[i]\<close> as page
  number \<^verbatim>\<open>start_idx + i\<close>; the \<^verbatim>\<open>finally\<close> block pauses on every way out.
\<close>

definition convert_pages_batch ::
  "env \<Rightarrow> nat list \<Rightarrow> page list \<Rightarrow> nat \<Rightarrow> llm_state \<Rightarrow> (exn + string list) \<times> llm_state" where
  "convert_pages_batch env schedule pages start_idx s =
     (let tasks = map (\<lambda>(i, pg). Start pg (start_idx + i)) (enumerate 0 pages) in
      case gather env schedule tasks s of
        (r, s') \<Rightarrow> (r, s'\<lparr>trace := trace s' @ [BatchPause]\<rparr>))"

section \<open>A file\<close>

text \<open>
  The loop \<^verbatim>\<open>for i in range(0, total_pages, self.num_workers)\<close> of \<^verbatim>\<open>convert_file\<close>,
  with \<open>i\<close> the start of the next batch and \<open>converted_pages\<close> the list built so
  far. \<^verbatim>\<open>range\<close> raises \<^verbatim>\<open>ValueError\<close> for the step zero. The schedule of the batch
  that starts at page \<open>i\<close> is \<open>schedule i\<close>.
\<close>

function convert_batches ::
  "env \<Rightarrow> (nat \<Rightarrow> nat list) \<Rightarrow> page list \<Rightarrow> nat \<Rightarrow> string list \<Rightarrow> llm_state
   \<Rightarrow> (exn + string list) \<times> llm_state" where
  "convert_batches env schedule pdf_document i converted_pages s =
     (if num_workers env = 0
      then (Inl (Exn ValueError ''range() arg 3 must not be zero''), s)
      else if length pdf_document \<le> i then (Inr converted_pages, s)
      else
        (let batch_size = min (num_workers env) (length pdf_document - i);
             batch_pages = map (\<lambda>j. pdf_document ! j) [i ..< i + batch_size]
         in case convert_pages_batch env (schedule i) batch_pages i s of
              (Inl e, s') \<Rightarrow> (Inl e, s')
            | (Inr batch_results, s') \<Rightarrow>
                convert_batches env schedule pdf_document (i + num_workers env)
                  (converted_pages @ batch_results) s'))"
  by pat_completeness auto
termination
  by (relation "measure (\<lambda>(env, schedule, pdf_document, i, converted_pages, s).
        length pdf_document - i)") auto

declare convert_batches.simps [simp del]

text \<open>The loop \<^verbatim>\<open>for page_number in range(total_pages)\<close> of the other branch.\<close>

fun convert_sequential ::
  "env \<Rightarrow> page list \<Rightarrow> nat list \<Rightarrow> string list \<Rightarrow> llm_state
   \<Rightarrow> (exn + string list) \<times> llm_state" where
  "convert_sequential env pdf_document [] converted_pages s = (Inr converted_pages, s)"
| "convert_sequential env pdf_document (page_number # rest) converted_pages s =
     (case run_task env (Start (pdf_document ! page_number) page_number) s of
        (Inl e, s') \<Rightarrow> (Inl e, s')
      | (Inr text, s') \<Rightarrow>
          convert_sequential env pdf_document rest (converted_pages @ [text]) s')"

text \<open>
  The handler that closes \<^verbatim>\<open>convert_file\<close>, \<^verbatim>\<open>except Exception as e: raise
  VisionParserError(...)\<close>, seen from outside.
\<close>

definition convert_file_except ::
  "(exn + string list) \<times> llm_state \<Rightarrow> (exn + string list) \<times> llm_state" where
  "convert_file_except rs =
     (case rs of
        (Inl e, s) \<Rightarrow>
          (if is_Exception e
           then (Inl (Exn VisionParserError
                    (''Failed to convert PDF file into markdown content: '' @ str_exn e)), s)
           else (Inl e, s))
      | (Inr converted_pages, s) \<Rightarrow> (Inr converted_pages, s))"

definition convert_file ::
  "env \<Rightarrow> (nat \<Rightarrow> nat list) \<Rightarrow> string \<Rightarrow> llm_state \<Rightarrow> (exn + string list) \<times> llm_state" where
  "convert_file env schedule file_path s =
     (if \<not> path_exists env file_path \<or> \<not> path_is_file env file_path
      then (Inl (Exn FileNotFoundError (''File not found: '' @ file_path)), s)
      else if lower (path_suffix file_path) \<notin> set [''.pdf'', ''.png'', ''.jpg'', ''.jpeg'']
      then (Inl (Exn UnsupportedFileError (''Unsupported file type: '' @ file_path)), s)
      else convert_file_except
        (if lower (path_suffix file_path) \<in> set [''.png'', ''.jpg'', ''.jpeg''] then
           (case insert_image env file_path of
              Inl e \<Rightarrow> (Inl e, s)
            | Inr pg \<Rightarrow>
                (case run_task env (Start pg 0) s of
                   (Inl e, s') \<Rightarrow> (Inl e, s')
                 | (Inr text, s') \<Rightarrow> (Inr [text], s')))
         else
           (case fitz_open env file_path of
              Inl e \<Rightarrow> (Inl e, s)
            | Inr pdf_document \<Rightarrow>
                if enable_concurrency env
                then convert_batches env schedule pdf_document 0 [] s
                else convert_sequential env pdf_document
                       [0 ..< length pdf_document] [] s)))"

section \<open>Simple extraction\<close>




section \<open>The result of a page\<close>

text \<open>
  The task \<open>t\<close> after it was resumed once in each of the states \<open>ss\<close> of the shared
  \<^verbatim>\<open>LLM\<close> object, whatever the other tasks did in between. A page \<open>pg\<close> converted as
  number \<open>n\<close> returns the markdown \<open>m\<close> when \<open>resumed env (Start pg n) ss\<close> is
  \<open>Finished (Inr m)\<close> for some \<open>ss\<close>.
\<close>

fun resumed :: "env \<Rightarrow> task \<Rightarrow> llm_state list \<Rightarrow> task" where
  "resumed env t [] = t"
| "resumed env t (s # ss) = resumed env (fst (task_step env t s)) ss"

section \<open>A sample configuration\<close>

text \<open>
  A parser with stub collaborators, on which the properties below are exercised: the
  model answers a structured request with a fixed analysis and a freeform request
  with a heading that repeats the page image; the PDF has three pages, the second
  one rotated; every page has one embedded image.
\<close>

definition demo_description :: ImageDescription where
  "demo_description =
     \<lparr>text_detected = Yes, tables_detected = Yes, images_detected = Yes,
      latex_equations_detected = No, extracted_text = ''Hello'',
      confidence_score_text = 9 / 10\<rparr>"

definition demo_pages :: "page list" where
  "demo_pages =
     [\<lparr>rotation = 0, page_data = ''p0''\<rparr>, \<lparr>rotation = 90, page_data = ''p1''\<rparr>,
      \<lparr>rotation = 0, page_data = ''p2''\<rparr>]"

definition demo_env :: env where
  "demo_env =
     \<lparr>page_config = \<lparr>dpi = 150, color_space = ''RGB'', include_annotations = True,
                      preserve_transparency = False\<rparr>,
      image_mode = Some Url,
      custom_prompt = None,
      enable_concurrency = False,
      num_workers = 2,
      temperature = 7 / 10,
      top_p = 7 / 10,
      client = (\<lambda>history req.
                  if req_structured req then Inr ''{analysis}''
                  else Inr (''# '' @ req_image req)),
      model_validate_json = (\<lambda>response.
                  if response = ''{analysis}'' then Some demo_description
                  else if response = ''{blank}''
                  then Some (demo_description\<lparr>text_detected := No\<rparr>)
                  else None),
      image_analysis_prompt = ''analyze'',
      md_prompt_template = (\<lambda>text tables latex confidence custom.
                  ''transcribe:'' @ text @ (case custom of None \<Rightarrow> [] | Some c \<Rightarrow> c)),
      extract_images = (\<lambda>pix mode page_number.
                  Inr [\<lparr>image_url = ''img0.png'', base64_encoded = ''QUJD''\<rparr>]),
      get_pixmap = (\<lambda>pg matrix alpha colorspace annots. Inr (page_data pg)),
      tobytes_png = (\<lambda>pix. Inr pix),
      b64encode = (\<lambda>png. png),
      path_exists = (\<lambda>p. p \<in> set [''doc.pdf'', ''scan.PNG'', ''notes.docx'']),
      path_is_file = (\<lambda>p. p \<in> set [''doc.pdf'', ''scan.PNG'', ''notes.docx'']),
      fitz_open = (\<lambda>p. Inr demo_pages),
      insert_image = (\<lambda>p. Inr \<lparr>rotation = 0, page_data = ''scan''\<rparr>)\<rparr>"

definition fresh :: "bool \<Rightarrow> llm_state" where
  "fresh detailed = \<lparr>detailed_extraction = detailed, trace = []\<rparr>"


text \<open>
  Variants of the parser: a model that finds no text on any page, inline image
  payloads, and no image mode at all.
\<close>

definition blank_env :: env where
  "blank_env =
     demo_env\<lparr>client := (\<lambda>history req.
       if req_structured req then Inr ''{blank}'' else Inr ''# never asked'')\<rparr>"

definition base64_env :: env where
  "base64_env = demo_env\<lparr>image_mode := Some Base64\<rparr>"

definition no_images_env :: env where
  "no_images_env = demo_env\<lparr>image_mode := None\<rparr>"

text \<open>
  Parsers whose collaborators fail: a model that refuses its first call and answers
  from the second on, a model whose structured call always fails, a model whose
  analysis does not validate, a model that fails on the second page, and a renderer
  that fails on the second page.
\<close>

definition flaky_env :: env where
  "flaky_env =
     demo_env\<lparr>client := (\<lambda>history req.
       if history = [] then Inl (Exn OtherException ''429 try again'')
       else Inr ''# page'')\<rparr>"

definition analysis_down_env :: env where
  "analysis_down_env =
     demo_env\<lparr>client := (\<lambda>history req.
       if req_structured req then Inl (Exn OtherException ''503 unavailable'')
       else Inr (''# '' @ req_image req))\<rparr>"

definition bad_json_env :: env where
  "bad_json_env =
     demo_env\<lparr>client := (\<lambda>history req.
       if req_structured req then Inr ''not json''
       else Inr (''# '' @ req_image req))\<rparr>"

definition page_fail_env :: env where
  "page_fail_env =
     demo_env\<lparr>client := (\<lambda>history req.
       if req_image req = ''p1'' then Inl (Exn OtherException ''500 internal'')
       else Inr (''# '' @ req_image req))\<rparr>"

definition raster_fail_env :: env where
  "raster_fail_env =
     demo_env\<lparr>get_pixmap := (\<lambda>pg matrix alpha colorspace annots.
       if page_data pg = ''p1'' then Inl (Exn OtherException ''cannot render'')
       else Inr (page_data pg))\<rparr>"


section \<open>Properties of the fence pattern\<close>






lemma match_fence_no_backtick: "c \<noteq> CHR ''`'' \<Longrightarrow> match_fence (c # cs) = None"
  by (simp add: match_fence_def fence_def)

lemma re_sub_plain: "CHR ''`'' \<notin> set pre \<Longrightarrow> re_sub (pre @ r) = pre @ re_sub r"
  by (induction pre) (auto simp add: match_fence_no_backtick)


lemma re_sub_no_backtick: "CHR ''`'' \<notin> set response \<Longrightarrow> re_sub response = response"
  using re_sub_plain [of response "[]"] by simp


text \<open>
  The general angle of \<open>prerotate\<close> uses the real sine and cosine; for evaluation
  the quarter turns are enough, since PyMuPDF reports a page rotation of 0, 90, 180
  or 270.
\<close>

lemma prerotate_code [code]:
  "prerotate m theta =
     (let t = theta mod 360 in
      if t = 0 then m
      else if t = 90 then
        m\<lparr>mat_a := mat_c m, mat_b := mat_d m, mat_c := - mat_a m, mat_d := - mat_b m\<rparr>
      else if t = 180 then
        m\<lparr>mat_a := - mat_a m, mat_b := - mat_b m, mat_c := - mat_c m, mat_d := - mat_d m\<rparr>
      else if t = 270 then
        m\<lparr>mat_a := - mat_c m, mat_b := - mat_d m, mat_c := mat_a m, mat_d := mat_b m\<rparr>
      else Code.abort (STR ''prerotate: not a quarter turn'') (\<lambda>_. prerotate m theta))"
  by (simp add: prerotate_def Let_def)

section \<open>Fenced blocks are unwrapped in every response\<close>



section \<open>The render matrix\<close>

lemma quarter_turns: "cos (3 * pi / 2) = 0" "sin (3 * pi / 2) = - 1"
  using cos_3over2_pi sin_3over2_pi by simp_all

lemma prerotate_is_product: "prerotate m theta = Matrix_mul (Matrix_rotation theta) m"
proof -
  have "m = \<lparr>mat_a = mat_a m, mat_b = mat_b m, mat_c = mat_c m, mat_d = mat_d m,
              mat_e = mat_e m, mat_f = mat_f m\<rparr>" by simp
  then show ?thesis
    by (auto simp add: prerotate_def Matrix_mul_def Matrix_rotation_def Let_def quarter_turns)
qed

text \<open>
  C8. The matrix under which a page is rendered scales both axes by
  \<open>2 * (dpi / 72)\<close>. A page whose rotation is zero gets exactly this scaling; for
  any other rotation the scaling is pre-rotated by the page's rotation, which is the
  product of the rotation and the scaling, the rotation first. The quotient is taken
  in the reals; the rounding of the floating-point division is not modelled.
\<close>

theorem calculate_matrix_scale_and_rotation:
  "(rotation pg = 0 \<longrightarrow>
      calculate_matrix cfg pg
      = \<lparr>mat_a = 2 * (real_of_int (dpi cfg) / 72), mat_b = 0, mat_c = 0,
         mat_d = 2 * (real_of_int (dpi cfg) / 72), mat_e = 0, mat_f = 0\<rparr>)
   \<and> (rotation pg \<noteq> 0 \<longrightarrow>
      calculate_matrix cfg pg
      = prerotate \<lparr>mat_a = 2 * (real_of_int (dpi cfg) / 72), mat_b = 0, mat_c = 0,
                  mat_d = 2 * (real_of_int (dpi cfg) / 72), mat_e = 0, mat_f = 0\<rparr>
          (rotation pg)
      \<and> calculate_matrix cfg pg
      = Matrix_mul (Matrix_rotation (rotation pg))
          \<lparr>mat_a = 2 * (real_of_int (dpi cfg) / 72), mat_b = 0, mat_c = 0,
           mat_d = 2 * (real_of_int (dpi cfg) / 72), mat_e = 0, mat_f = 0\<rparr>)"
  by (simp add: calculate_matrix_def Matrix_scale_def Let_def prerotate_is_product mult.commute)

theorem calculate_matrix_scale_and_rotation_witness:
  "calculate_matrix (page_config demo_env) (demo_pages ! 0)
     = \<lparr>mat_a = 25 / 6, mat_b = 0, mat_c = 0, mat_d = 25 / 6, mat_e = 0, mat_f = 0\<rparr>
   \<and> calculate_matrix (page_config demo_env) (demo_pages ! 1)
     = \<lparr>mat_a = 0, mat_b = 25 / 6, mat_c = - (25 / 6), mat_d = 0, mat_e = 0, mat_f = 0\<rparr>"
  using calculate_matrix_scale_and_rotation [of "demo_pages ! 0" "page_config demo_env"]
    calculate_matrix_scale_and_rotation [of "demo_pages ! 1" "page_config demo_env"]
  by (simp add: demo_env_def demo_pages_def prerotate_def)

section \<open>Inputs that are refused\<close>



section \<open>Steps of a page\<close>


lemma gemini_attempt_Inr:
  "client env (trace s) (gemini_request env base64 prompt structured) = Inr response \<Longrightarrow>
   gemini_attempt env base64 prompt structured s
   = (Inr (re_sub response),
      s\<lparr>trace := trace s @ [ModelCall (gemini_request env base64 prompt structured)]\<rparr>)"
  by (simp add: gemini_attempt_def Let_def)

lemma gemini_attempt_Inl:
  "client env (trace s) (gemini_request env base64 prompt structured) = Inl e \<Longrightarrow>
   gemini_attempt env base64 prompt structured s
   = (Inl (if is_Exception e
           then Exn LLMError (''Gemini Model processing failed: '' @ str_exn e) else e),
      s\<lparr>trace := trace s @ [ModelCall (gemini_request env base64 prompt structured)]\<rparr>)"
  by (simp add: gemini_attempt_def Let_def)



lemma foldl_append_concat:
  "foldl (\<lambda>content x. content @ g x) content xs = content @ concat (map g xs)"
  by (induction xs arbitrary: content) auto

lemma assemble_concat:
  "assemble env extracted_images markdown_content
   = markdown_content
     @ (case image_mode env of
          None \<Rightarrow> []
        | Some mode \<Rightarrow> concat (map (image_ref mode) extracted_images))"
  by (simp add: assemble_def foldl_append_concat split: option.splits)

section \<open>Pages without text\<close>

text \<open>
  C3. When the structured call of a page returns an analysis that validates and says
  \<^verbatim>\<open>text_detected = "No"\<close>, the page is finished with the empty string: the step
  that receives the answer ends the task, whatever the other tasks did to the shared
  state, and a page converted on its own with the flag set returns the empty string
  with a trace that gained the structured call and nothing else, so neither a
  freeform call nor an image extraction took place.
\<close>

theorem no_text_short_circuit:
  assumes "client env (trace s) (gemini_request env base64 (image_analysis_prompt env) True)
           = Inr response"
    and "model_validate_json env (re_sub response) = Some json_response"
    and "text_detected json_response = No"
  shows "task_step env (Analyze pix base64 page_number k) s
         = (Finished (Inr []),
            s\<lparr>trace := trace s
               @ [ModelCall (gemini_request env base64 (image_analysis_prompt env) True)]\<rparr>)
       \<and> (detailed_extraction s
          \<and> get_pixmap env pg (calculate_matrix (page_config env) pg)
               (preserve_transparency (page_config env)) (color_space (page_config env))
               (include_annotations (page_config env)) = Inr pix
          \<and> tobytes_png env pix = Inr png \<and> base64 = b64encode env png \<longrightarrow>
          run_task env (Start pg page_number) s
          = (Inr [],
             s\<lparr>trace := trace s
                @ [ModelCall (gemini_request env base64 (image_analysis_prompt env) True)]\<rparr>))"
proof -
  have step: "task_step env (Analyze pix base64 page_number k) s
         = (Finished (Inr []),
            s\<lparr>trace := trace s
               @ [ModelCall (gemini_request env base64 (image_analysis_prompt env) True)]\<rparr>)"
    for k
    using assms by (simp add: gemini_attempt_Inr generate_markdown_analyzed_def)
  show ?thesis
  proof (intro conjI impI)
    show "task_step env (Analyze pix base64 page_number k) s
         = (Finished (Inr []),
            s\<lparr>trace := trace s
               @ [ModelCall (gemini_request env base64 (image_analysis_prompt env) True)]\<rparr>)"
      by (rule step)
  next
    assume h: "detailed_extraction s
          \<and> get_pixmap env pg (calculate_matrix (page_config env) pg)
               (preserve_transparency (page_config env)) (color_space (page_config env))
               (include_annotations (page_config env)) = Inr pix
          \<and> tobytes_png env pix = Inr png \<and> base64 = b64encode env png"
    then have "task_step env (Start pg page_number) s = (Analyze pix base64 page_number 1, s)"
      by (simp add: convert_page_begin_def generate_markdown_begin_def Let_def)
    then show "run_task env (Start pg page_number) s
          = (Inr [],
             s\<lparr>trace := trace s
                @ [ModelCall (gemini_request env base64 (image_analysis_prompt env) True)]\<rparr>)"
      using step [of 1] by simp
  qed
qed


theorem no_text_short_circuit_witness:
  "task_step blank_env (Analyze ''p0'' ''p0'' 0 1) (fresh True)
     = (Finished (Inr []),
        \<lparr>detailed_extraction = True,
         trace = [ModelCall (gemini_request blank_env ''p0'' ''analyze'' True)]\<rparr>)
   \<and> run_task blank_env (Start (demo_pages ! 0) 0) (fresh True)
     = (Inr [],
        \<lparr>detailed_extraction = True,
         trace = [ModelCall (gemini_request blank_env ''p0'' ''analyze'' True)]\<rparr>)"
proof -
  have r: "re_sub ''{blank}'' = ''{blank}''"
    by (rule re_sub_no_backtick) simp
  have p: "image_analysis_prompt blank_env = ''analyze''"
    by (simp add: blank_env_def demo_env_def)
  have c: "client blank_env (trace (fresh True))
             (gemini_request blank_env ''p0'' (image_analysis_prompt blank_env) True)
           = Inr ''{blank}''"
    by (simp add: blank_env_def gemini_request_def)
  have v: "model_validate_json blank_env (re_sub ''{blank}'')
           = Some (demo_description\<lparr>text_detected := No\<rparr>)"
    unfolding r by (simp add: blank_env_def demo_env_def)
  have t: "text_detected (demo_description\<lparr>text_detected := No\<rparr>) = No"
    by simp
  show ?thesis
    using no_text_short_circuit [OF c v t, of "''p0''" 0 1 "demo_pages ! 0" "''p0''"]
    by (simp add: p fresh_def blank_env_def demo_env_def demo_pages_def)
qed

section \<open>Image references\<close>

text \<open>
  C6. The markdown of a page is the text of the freeform call followed by one
  reference for each extracted image: in \<^verbatim>\<open>url\<close> mode the target of the reference is
  the image's locator, in \<^verbatim>\<open>base64\<close> mode its inline payload, and without a mode
  nothing is appended. The images carried to that point are the ones the extractor
  returned, and the extractor is called (the trace says so) only when the analysis
  reports images and a mode is configured; otherwise the list is empty.
\<close>

theorem image_references_follow_mode:
  "(client env (trace s) (gemini_request env base64 prompt False) = Inr response \<longrightarrow>
      task_step env (Generate extracted_images prompt base64 page_number k) s
      = (Finished (Inr (re_sub response
           @ (case image_mode env of
                None \<Rightarrow> []
              | Some Url \<Rightarrow>
                  concat (map (\<lambda>image_data. [NL, NL] @ ''!['' @ image_url image_data
                    @ '']('' @ image_url image_data @ '')'') extracted_images)
              | Some Base64 \<Rightarrow>
                  concat (map (\<lambda>image_data. [NL, NL] @ ''!['' @ image_url image_data
                    @ '']('' @ base64_encoded image_data @ '')'') extracted_images)))),
         s\<lparr>trace := trace s @ [ModelCall (gemini_request env base64 prompt False)]\<rparr>))
   \<and> (client env (trace s) (gemini_request env base64 (image_analysis_prompt env) True)
        = Inr analysis
      \<and> model_validate_json env (re_sub analysis) = Some json_response
      \<and> text_detected json_response = Yes \<longrightarrow>
      (image_mode env = None \<or> images_detected json_response = No \<longrightarrow>
         task_step env (Analyze pix base64 page_number k) s
         = (Generate []
              (if detailed_extraction s then detailed_prompt env json_response
               else fallback_prompt env) base64 page_number 1,
            s\<lparr>trace := trace s
               @ [ModelCall (gemini_request env base64 (image_analysis_prompt env) True)]\<rparr>))
      \<and> (image_mode env = Some mode \<and> images_detected json_response = Yes
          \<and> extract_images env pix mode page_number = Inr images \<longrightarrow>
         task_step env (Analyze pix base64 page_number k) s
         = (Generate images
              (if detailed_extraction s then detailed_prompt env json_response
               else fallback_prompt env) base64 page_number 1,
            s\<lparr>trace := trace s
               @ [ModelCall (gemini_request env base64 (image_analysis_prompt env) True),
                  ExtractImages page_number]\<rparr>)))"
proof -
  have refs: "(case image_mode env of
                 None \<Rightarrow> []
               | Some m \<Rightarrow> concat (map (image_ref m) extracted_images))
            = (case image_mode env of
                None \<Rightarrow> []
              | Some Url \<Rightarrow>
                  concat (map (\<lambda>image_data. [NL, NL] @ ''!['' @ image_url image_data
                    @ '']('' @ image_url image_data @ '')'') extracted_images)
              | Some Base64 \<Rightarrow>
                  concat (map (\<lambda>image_data. [NL, NL] @ ''!['' @ image_url image_data
                    @ '']('' @ base64_encoded image_data @ '')'') extracted_images))"
    by (simp add: image_ref_def [abs_def] split: option.splits image_mode.splits)
  have gen: "client env (trace s) (gemini_request env base64 prompt False) = Inr response \<Longrightarrow>
      task_step env (Generate extracted_images prompt base64 page_number k) s
      = (Finished (Inr (re_sub response
           @ (case image_mode env of
                 None \<Rightarrow> []
               | Some m \<Rightarrow> concat (map (image_ref m) extracted_images)))),
         s\<lparr>trace := trace s @ [ModelCall (gemini_request env base64 prompt False)]\<rparr>)"
    by (simp add: gemini_attempt_Inr assemble_concat)
  show ?thesis
    unfolding refs [symmetric]
    by (auto simp add: gen gemini_attempt_Inr assemble_concat generate_markdown_analyzed_def
        generate_markdown_prompt_def Let_def)
qed


theorem image_references_follow_mode_witness:
  "task_step demo_env (Analyze ''p0'' ''p0'' 0 1) (fresh True)
     = (Generate [\<lparr>image_url = ''img0.png'', base64_encoded = ''QUJD''\<rparr>]
          ''transcribe:Hello'' ''p0'' 0 1,
        \<lparr>detailed_extraction = True,
         trace = [ModelCall (gemini_request demo_env ''p0'' ''analyze'' True),
                  ExtractImages 0]\<rparr>)
   \<and> task_step no_images_env (Analyze ''p0'' ''p0'' 0 1) (fresh True)
     = (Generate [] ''transcribe:Hello'' ''p0'' 0 1,
        \<lparr>detailed_extraction = True,
         trace = [ModelCall (gemini_request no_images_env ''p0'' ''analyze'' True)]\<rparr>)
   \<and> fst (task_step demo_env
        (Generate [\<lparr>image_url = ''img0.png'', base64_encoded = ''QUJD''\<rparr>]
           ''transcribe:Hello'' ''p0'' 0 1) (fresh True))
     = Finished (Inr (''# p0'' @ [NL, NL] @ ''![img0.png](img0.png)''))
   \<and> fst (task_step base64_env
        (Generate [\<lparr>image_url = ''img0.png'', base64_encoded = ''QUJD''\<rparr>]
           ''transcribe:Hello'' ''p0'' 0 1) (fresh True))
     = Finished (Inr (''# p0'' @ [NL, NL] @ ''![img0.png](QUJD)''))
   \<and> fst (task_step no_images_env
        (Generate [\<lparr>image_url = ''img0.png'', base64_encoded = ''QUJD''\<rparr>]
           ''transcribe:Hello'' ''p0'' 0 1) (fresh True))
     = Finished (Inr ''# p0'')"
proof -
  have r1: "re_sub ''{analysis}'' = ''{analysis}''"
    by (rule re_sub_no_backtick) simp
  have r2: "re_sub ''# p0'' = ''# p0''"
    by (rule re_sub_no_backtick) simp
  have a1: "task_step demo_env (Analyze ''p0'' ''p0'' 0 1) (fresh True)
     = (Generate [\<lparr>image_url = ''img0.png'', base64_encoded = ''QUJD''\<rparr>]
          ''transcribe:Hello'' ''p0'' 0 1,
        \<lparr>detailed_extraction = True,
         trace = [ModelCall (gemini_request demo_env ''p0'' ''analyze'' True),
                  ExtractImages 0]\<rparr>)"
    using image_references_follow_mode [of demo_env "fresh True" "''p0''" "''x''" "''y''"
        "[]" 0 1 "''{analysis}''" demo_description "''p0''" Url
        "[\<lparr>image_url = ''img0.png'', base64_encoded = ''QUJD''\<rparr>]"]
    unfolding r1
    by (simp add: demo_env_def demo_description_def fresh_def gemini_request_def
        detailed_prompt_def)
  have a2: "task_step no_images_env (Analyze ''p0'' ''p0'' 0 1) (fresh True)
     = (Generate [] ''transcribe:Hello'' ''p0'' 0 1,
        \<lparr>detailed_extraction = True,
         trace = [ModelCall (gemini_request no_images_env ''p0'' ''analyze'' True)]\<rparr>)"
    using image_references_follow_mode [of no_images_env "fresh True" "''p0''" "''x''" "''y''"
        "[]" 0 1 "''{analysis}''" demo_description "''p0''" Url "[]"]
    unfolding r1
    by (simp add: no_images_env_def demo_env_def demo_description_def fresh_def
        gemini_request_def detailed_prompt_def)
  have g: "image_mode env = image_mode env \<Longrightarrow>
     client env (trace (fresh True)) (gemini_request env ''p0'' ''transcribe:Hello'' False)
       = Inr ''# p0'' \<Longrightarrow>
     fst (task_step env
        (Generate [\<lparr>image_url = ''img0.png'', base64_encoded = ''QUJD''\<rparr>]
           ''transcribe:Hello'' ''p0'' 0 1) (fresh True))
     = Finished (Inr (''# p0''
         @ (case image_mode env of
              None \<Rightarrow> []
            | Some Url \<Rightarrow> [NL, NL] @ ''![img0.png](img0.png)''
            | Some Base64 \<Rightarrow> [NL, NL] @ ''![img0.png](QUJD)'')))" for env
    using image_references_follow_mode [of env "fresh True" "''p0''" "''transcribe:Hello''"
        "''# p0''" "[\<lparr>image_url = ''img0.png'', base64_encoded = ''QUJD''\<rparr>]" 0 1]
    unfolding r2
    by (simp split: option.splits image_mode.splits)
  have g1: "fst (task_step demo_env
        (Generate [\<lparr>image_url = ''img0.png'', base64_encoded = ''QUJD''\<rparr>]
           ''transcribe:Hello'' ''p0'' 0 1) (fresh True))
     = Finished (Inr (''# p0'' @ [NL, NL] @ ''![img0.png](img0.png)''))"
    using g [of demo_env] by (simp add: demo_env_def gemini_request_def)
  have g2: "fst (task_step base64_env
        (Generate [\<lparr>image_url = ''img0.png'', base64_encoded = ''QUJD''\<rparr>]
           ''transcribe:Hello'' ''p0'' 0 1) (fresh True))
     = Finished (Inr (''# p0'' @ [NL, NL] @ ''![img0.png](QUJD)''))"
    using g [of base64_env] by (simp add: base64_env_def demo_env_def gemini_request_def)
  have g3: "fst (task_step no_images_env
        (Generate [\<lparr>image_url = ''img0.png'', base64_encoded = ''QUJD''\<rparr>]
           ''transcribe:Hello'' ''p0'' 0 1) (fresh True))
     = Finished (Inr ''# p0'')"
    using g [of no_images_env]
    by (simp add: no_images_env_def demo_env_def gemini_request_def)
  from a1 a2 g1 g2 g3 show ?thesis by blast
qed

section \<open>Failures of the model call\<close>

lemma suffix_doc_pdf: "lower (path_suffix ''doc.pdf'') = ''.pdf''"
  by (simp add: path_suffix_def path_name_def Let_def lower_def lower_char_def)

text \<open>
  C4. The claim is that a call which fails on its first or second attempt and would
  succeed by the third does not fail. Here the model refuses the first call and
  would answer the second: the page fails with an \<^verbatim>\<open>LLMError\<close> after a single call
  and no wait. \<^verbatim>\<open>_gemini\<close> turns every \<^verbatim>\<open>Exception\<close> into an \<^verbatim>\<open>LLMError\<close>, a
  \<^verbatim>\<open>BaseException\<close>, which the retry condition of the decorator does not accept.
\<close>

theorem failed_call_is_not_retried:
  "run_task flaky_env (Start (demo_pages ! 0) 0) (fresh False)
     = (Inl (Exn LLMError ''Gemini Model processing failed: 429 try again''),
        \<lparr>detailed_extraction = False,
         trace = [ModelCall (gemini_request flaky_env ''p0'' ''transcribe:'' False)]\<rparr>)
   \<and> client flaky_env [ModelCall (gemini_request flaky_env ''p0'' ''transcribe:'' False)]
        (gemini_request flaky_env ''p0'' ''transcribe:'' False)
     = Inr ''# page''"
  by (simp add: flaky_env_def demo_env_def demo_pages_def fresh_def convert_page_begin_def
      generate_markdown_begin_def fallback_prompt_def gemini_attempt_def gemini_request_def
      retry_again_def retry_if_exception_type_def convert_page_except_def Let_def)

theorem failed_call_is_not_retried_witness:
  "exn_class_of (projl (fst (run_task flaky_env (Start (demo_pages ! 0) 0) (fresh False))))
     = LLMError
   \<and> length (trace (snd (run_task flaky_env (Start (demo_pages ! 0) 0) (fresh False)))) = 1"
  using failed_call_is_not_retried by simp

text \<open>
  C2. The claim is that a page whose structured analysis fails still yields markdown
  built from the fixed fields and that the flag is cleared. With a model whose
  structured call fails, the page raises the \<^verbatim>\<open>LLMError\<close>, no freeform call is made
  and the flag stays set: the handler \<^verbatim>\<open>except Exception\<close> of \<^verbatim>\<open>generate_markdown\<close>
  does not catch it. The sibling failure, an analysis that does not validate, is
  caught and does what the claim says.
\<close>

theorem failed_analysis_call_is_not_recovered:
  "run_task analysis_down_env (Start (demo_pages ! 0) 0) (fresh True)
     = (Inl (Exn LLMError ''Gemini Model processing failed: 503 unavailable''),
        \<lparr>detailed_extraction = True,
         trace = [ModelCall (gemini_request analysis_down_env ''p0'' ''analyze'' True)]\<rparr>)
   \<and> run_task bad_json_env (Start (demo_pages ! 0) 0) (fresh True)
     = (Inr ''# p0'',
        \<lparr>detailed_extraction = False,
         trace = [ModelCall (gemini_request bad_json_env ''p0'' ''analyze'' True),
                  ModelCall (gemini_request bad_json_env ''p0'' ''transcribe:'' False)]\<rparr>)"
  by (simp add: analysis_down_env_def bad_json_env_def demo_env_def demo_pages_def fresh_def
      convert_page_begin_def generate_markdown_begin_def generate_markdown_analyzed_def
      analysis_raise_def analysis_fallback_def fallback_prompt_def gemini_attempt_def
      gemini_request_def retry_again_def retry_if_exception_type_def convert_page_except_def
      assemble_def match_fence_def fence_def Let_def)


theorem failed_analysis_call_is_not_recovered_witness:
  "exn_class_of
     (projl (fst (run_task analysis_down_env (Start (demo_pages ! 0) 0) (fresh True))))
     = LLMError
   \<and> detailed_extraction
       (snd (run_task analysis_down_env (Start (demo_pages ! 0) 0) (fresh True)))"
  using failed_analysis_call_is_not_recovered by simp

text \<open>
  C5. The claim is that a page failing outside the analysis aborts the conversion
  with a \<^verbatim>\<open>VisionParserError\<close> that carries the page. When the freeform call of the
  second page fails, \<^verbatim>\<open>convert_file\<close> raises the bare \<^verbatim>\<open>LLMError\<close>, which passes
  the handlers of \<^verbatim>\<open>_convert_page\<close> and of \<^verbatim>\<open>convert_file\<close>; when rendering the
  second page fails, the \<^verbatim>\<open>finally\<close> block of \<^verbatim>\<open>_convert_page\<close> raises
  \<^verbatim>\<open>UnboundLocalError\<close>, and the error that leaves \<^verbatim>\<open>convert_file\<close> names no page.
  In both runs no list of pages is returned.
\<close>

theorem page_failure_has_no_page_number:
  "convert_file page_fail_env (\<lambda>i. []) ''doc.pdf'' (fresh False)
     = (Inl (Exn LLMError ''Gemini Model processing failed: 500 internal''),
        \<lparr>detailed_extraction = False,
         trace = [ModelCall (gemini_request page_fail_env ''p0'' ''transcribe:'' False),
                  ModelCall (gemini_request page_fail_env ''p1'' ''transcribe:'' False)]\<rparr>)
   \<and> convert_file raster_fail_env (\<lambda>i. []) ''doc.pdf'' (fresh False)
     = (Inl (Exn VisionParserError
          (''Failed to convert PDF file into markdown content: ''
           @ ''cannot access local variable 'pix' where it is not associated with a value'')),
        \<lparr>detailed_extraction = False,
         trace = [ModelCall (gemini_request raster_fail_env ''p0'' ''transcribe:'' False)]\<rparr>)"
  by (simp add: convert_file_def suffix_doc_pdf convert_file_except_def upt_rec [of 0 3]
      upt_rec [of 1 3] upt_rec [of 2 3]
      page_fail_env_def raster_fail_env_def demo_env_def demo_pages_def fresh_def
      convert_page_begin_def unbound_pix_def
      generate_markdown_begin_def fallback_prompt_def gemini_attempt_def gemini_request_def
      retry_again_def retry_if_exception_type_def convert_page_except_def
      assemble_def match_fence_def fence_def Let_def)

theorem page_failure_has_no_page_number_witness:
  "exn_class_of (projl (fst (convert_file page_fail_env (\<lambda>i. []) ''doc.pdf'' (fresh False))))
     = LLMError
   \<and> exn_class_of
       (projl (fst (convert_file raster_fail_env (\<lambda>i. []) ''doc.pdf'' (fresh False))))
     = VisionParserError"
  using page_failure_has_no_page_number by simp

section \<open>Invariants of a run\<close>












section \<open>The flag stays cleared\<close>








section \<open>Length and order of the result\<close>

text \<open>
  What \<^verbatim>\<open>asyncio.run\<close>, \<^verbatim>\<open>asyncio.gather\<close> and the two loops of \<^verbatim>\<open>convert_file\<close>
  return, when they return, is what the tasks they were given returned, position by
  position.
\<close>

lemma resumed_Finished: "resumed env (Finished r) ss = Finished r"
  by (induction ss) simp_all












end
